theory Spec2Isabelle
  imports Main "HOL-Library.Sublist"
begin

section \<open>Python strings and exceptions\<close>

text \<open>
  The program is \<^verbatim>\<open>HN6_Bot_ADRES_BOOK_OOP.py\<close>. A Python \<^verbatim>\<open>str\<close> is a sequence of
  code points. The model covers the code points below 256: a \<^typ>\<open>char\<close> is read as the
  code point with that number (Latin-1), so \<^term>\<open>length\<close> counts code points as
  Python's \<^verbatim>\<open>len\<close> does. The three character tables the program consults through
  \<^verbatim>\<open>str.isdigit\<close>, \<^verbatim>\<open>str.strip\<close>/\<^verbatim>\<open>str.split\<close> and \<^verbatim>\<open>str.lower\<close> are those of
  CPython for this range.
\<close>

type_synonym pystr = string

text \<open>
  \<^verbatim>\<open>str.isdigit\<close>: true when the string is not empty and every character has the
  Unicode property Numeric_Type=Digit or Numeric_Type=Decimal. Below 256 these are
  \<^verbatim>\<open>0\<close>..\<^verbatim>\<open>9\<close> (48..57) and the superscripts two, three and one (178, 179, 185).
\<close>

definition isdigit_char :: "char \<Rightarrow> bool" where
  "isdigit_char c =
     (let n = (of_char c :: nat)
      in (48 \<le> n \<and> n \<le> 57) \<or> n = 178 \<or> n = 179 \<or> n = 185)"

definition isdigit :: "pystr \<Rightarrow> bool" where
  "isdigit s = (s \<noteq> [] \<and> list_all isdigit_char s)"

text \<open>The decimal digits \<^verbatim>\<open>0\<close>..\<^verbatim>\<open>9\<close> themselves, for comparison.\<close>

definition ascii_digit :: "char \<Rightarrow> bool" where
  "ascii_digit c = (let n = (of_char c :: nat) in 48 \<le> n \<and> n \<le> 57)"

text \<open>
  The exceptions the program raises or provokes, each with its message. \<^verbatim>\<open>KeyError\<close> and
  \<^verbatim>\<open>IndexError\<close> are not subclasses of \<^verbatim>\<open>ValueError\<close>, nor the other way round.
\<close>

datatype py_error = ValueError pystr | KeyError pystr | IndexError pystr

section \<open>Fields: Name and Phone\<close>

text \<open>
  \<^verbatim>\<open>Field\<close> holds one attribute \<^verbatim>\<open>value\<close>; \<^verbatim>\<open>Name\<close> and \<^verbatim>\<open>Phone\<close> are its two
  subclasses, each with a validating constructor. \<^verbatim>\<open>not value\<close> on a string is true
  exactly for the empty string.
\<close>

datatype Name = Name (Name_value: pystr)

datatype Phone = Phone (Phone_value: pystr)

definition Name_init :: "pystr \<Rightarrow> py_error + Name" where
  "Name_init v =
     (if v = [] then Inl (ValueError ''Name cannot be empty'') else Inr (Name v))"

definition validate_phone :: "pystr \<Rightarrow> bool" where
  "validate_phone phone = (isdigit phone \<and> length phone = 10)"

definition Phone_init :: "pystr \<Rightarrow> py_error + Phone" where
  "Phone_init v =
     (if \<not> validate_phone v then Inl (ValueError ''Phone number must be 10 digits'')
      else Inr (Phone v))"

section \<open>Record\<close>

record Record =
  name :: Name
  phones :: "Phone list"

definition Record_init :: "pystr \<Rightarrow> py_error + Record" where
  "Record_init nm =
     (case Name_init nm of
        Inl e \<Rightarrow> Inl e
      | Inr n \<Rightarrow> Inr \<lparr>name = n, phones = []\<rparr>)"

text \<open>
  A method that mutates \<^verbatim>\<open>self\<close> returns the record as it is when the method ends,
  also when it ends by raising: the first component is the exception or the normal
  return.
\<close>

definition add_phone :: "Record \<Rightarrow> pystr \<Rightarrow> (py_error + unit) \<times> Record" where
  "add_phone r phone =
     (case Phone_init phone of
        Inl e \<Rightarrow> (Inl e, r)
      | Inr p \<Rightarrow> (Inr (), r\<lparr>phones := phones r @ [p]\<rparr>))"

text \<open>The \<^verbatim>\<open>for\<close> loop of \<^verbatim>\<open>find_phone\<close> over \<^verbatim>\<open>self.phones\<close>.\<close>

fun find_phone_loop :: "Phone list \<Rightarrow> pystr \<Rightarrow> Phone option" where
  "find_phone_loop [] phone = None"
| "find_phone_loop (phone_obj # rest) phone =
     (if Phone_value phone_obj = phone then Some phone_obj
      else find_phone_loop rest phone)"

definition find_phone :: "Record \<Rightarrow> pystr \<Rightarrow> Phone option" where
  "find_phone r phone = find_phone_loop (phones r) phone"

text \<open>
  \<^verbatim>\<open>list.remove(x)\<close> deletes the first item equal to \<^verbatim>\<open>x\<close> and raises
  \<^verbatim>\<open>ValueError\<close> when there is none. \<^verbatim>\<open>Phone\<close> defines no \<^verbatim>\<open>__eq__\<close>, so Python
  compares the objects by identity; the object \<^verbatim>\<open>find_phone\<close> returns is the first
  one in the list with the value sought, and every \<^verbatim>\<open>Phone\<close> in a list is an object
  of its own (\<^verbatim>\<open>add_phone\<close> constructs one per call), so the item deleted is the one at
  the first position holding that value, as in the model, where phones are compared by
  value.
\<close>

fun list_remove :: "'a list \<Rightarrow> 'a \<Rightarrow> py_error + 'a list" where
  "list_remove [] x = Inl (ValueError ''list.remove(x): x not in list'')"
| "list_remove (y # ys) x =
     (if y = x then Inr ys
      else (case list_remove ys x of
              Inl e \<Rightarrow> Inl e
            | Inr zs \<Rightarrow> Inr (y # zs)))"

definition remove_phone :: "Record \<Rightarrow> pystr \<Rightarrow> (py_error + unit) \<times> Record" where
  "remove_phone r phone =
     (case find_phone r phone of
        Some phone_obj \<Rightarrow>
          (case list_remove (phones r) phone_obj of
             Inl e \<Rightarrow> (Inl e, r)
           | Inr ps \<Rightarrow> (Inr (), r\<lparr>phones := ps\<rparr>))
      | None \<Rightarrow> (Inl (ValueError ''Phone number not found''), r))"

definition edit_phone :: "Record \<Rightarrow> pystr \<Rightarrow> pystr \<Rightarrow> (py_error + unit) \<times> Record" where
  "edit_phone r old_phone new_phone =
     (case find_phone r old_phone of
        Some old_phone_obj \<Rightarrow>
          (case remove_phone r old_phone of
             (Inl e, r1) \<Rightarrow> (Inl e, r1)
           | (Inr u, r1) \<Rightarrow> add_phone r1 new_phone)
      | None \<Rightarrow> (Inl (ValueError ''Old phone number not found''), r))"

text \<open>\<^verbatim>\<open>'sep'.join(items)\<close>.\<close>

fun join :: "pystr \<Rightarrow> pystr list \<Rightarrow> pystr" where
  "join sep [] = []"
| "join sep [x] = x"
| "join sep (x # y # ys) = x @ sep @ join sep (y # ys)"

text \<open>
  The specification's wording of a joined rendering, for comparison with \<^const>\<open>join\<close>:
  the items in list order, the separator before every item but the first, and the empty
  string when there is no item.
\<close>

definition spec_joined :: "pystr \<Rightarrow> pystr list \<Rightarrow> pystr" where
  "spec_joined sep items =
     (case items of
        [] \<Rightarrow> []
      | x # rest \<Rightarrow> x @ concat (map (\<lambda>y. sep @ y) rest))"

definition Record_str :: "Record \<Rightarrow> pystr" where
  "Record_str r =
     ''Contact name: '' @ Name_value (name r) @ '', phones: ''
       @ join ''; '' (map Phone_value (phones r))"

section \<open>AddressBook\<close>

text \<open>
  \<^verbatim>\<open>AddressBook\<close> is a \<^verbatim>\<open>UserDict\<close>: its \<^verbatim>\<open>data\<close> is a \<^verbatim>\<open>dict\<close>, which keeps its items
  in insertion order. It is modelled as the list of its items in that order. Assigning
  to a key that is present replaces the value where it stands; assigning to a new key
  appends an item; \<^verbatim>\<open>del\<close> takes the item out and raises \<^verbatim>\<open>KeyError\<close> for a key that
  is absent.
\<close>

type_synonym AddressBook = "(pystr \<times> Record) list"

fun dict_setitem :: "('k \<times> 'v) list \<Rightarrow> 'k \<Rightarrow> 'v \<Rightarrow> ('k \<times> 'v) list" where
  "dict_setitem [] k v = [(k, v)]"
| "dict_setitem ((k', v') # d) k v =
     (if k' = k then (k', v) # d else (k', v') # dict_setitem d k v)"

fun dict_get :: "('k \<times> 'v) list \<Rightarrow> 'k \<Rightarrow> 'v option" where
  "dict_get [] k = None"
| "dict_get ((k', v') # d) k = (if k' = k then Some v' else dict_get d k)"

fun dict_contains :: "('k \<times> 'v) list \<Rightarrow> 'k \<Rightarrow> bool" where
  "dict_contains [] k = False"
| "dict_contains ((k', v') # d) k = (k' = k \<or> dict_contains d k)"

fun dict_delitem :: "(pystr \<times> 'v) list \<Rightarrow> pystr \<Rightarrow> py_error + (pystr \<times> 'v) list" where
  "dict_delitem [] k = Inl (KeyError k)"
| "dict_delitem ((k', v') # d) k =
     (if k' = k then Inr d
      else (case dict_delitem d k of
              Inl e \<Rightarrow> Inl e
            | Inr d' \<Rightarrow> Inr ((k', v') # d')))"

definition add_record :: "AddressBook \<Rightarrow> Record \<Rightarrow> AddressBook" where
  "add_record contacts record = dict_setitem contacts (Name_value (name record)) record"

definition find_record :: "AddressBook \<Rightarrow> pystr \<Rightarrow> Record option" where
  "find_record contacts nm = dict_get contacts nm"

definition delete :: "AddressBook \<Rightarrow> pystr \<Rightarrow> (py_error + unit) \<times> AddressBook" where
  "delete contacts nm =
     (if dict_contains contacts nm then
        (case dict_delitem contacts nm of
           Inl e \<Rightarrow> (Inl e, contacts)
         | Inr d \<Rightarrow> (Inr (), d))
      else (Inl (ValueError ''Record not found''), contacts))"

definition AddressBook_str :: "AddressBook \<Rightarrow> pystr" where
  "AddressBook_str contacts = join [CHR 0x0A] (map (\<lambda>(k, record). Record_str record) contacts)"

text \<open>
  The invariant of the directory: every item is stored under its record's own name.
\<close>

definition key_inv :: "AddressBook \<Rightarrow> bool" where
  "key_inv contacts = list_all (\<lambda>(k, record). k = Name_value (name record)) contacts"

text \<open>A sequence of the three operations of the directory, run from a given state.\<close>

datatype book_op = AddRecord Record | Find pystr | Delete pystr

fun apply_op :: "AddressBook \<Rightarrow> book_op \<Rightarrow> AddressBook" where
  "apply_op contacts (AddRecord record) = add_record contacts record"
| "apply_op contacts (Find nm) = contacts"
| "apply_op contacts (Delete nm) = snd (delete contacts nm)"

definition run_ops :: "book_op list \<Rightarrow> AddressBook" where
  "run_ops ops = foldl apply_op [] ops"

section \<open>Command handlers\<close>

text \<open>
  The decorator \<^verbatim>\<open>input_error\<close>: the wrapped handler's exception becomes the string to
  print. A handler works on the directory, which it may have changed before raising.
\<close>

definition input_error :: "('s \<Rightarrow> (py_error + pystr) \<times> 's) \<Rightarrow> 's \<Rightarrow> pystr \<times> 's" where
  "input_error func s =
     (case func s of
        (Inr v, s') \<Rightarrow> (v, s')
      | (Inl (KeyError m), s') \<Rightarrow> (''Error: Contact not found.'', s')
      | (Inl (ValueError e), s') \<Rightarrow> (''Error: '' @ e, s')
      | (Inl (IndexError m), s') \<Rightarrow> (''Error: Invalid command format.'', s'))"

fun add_contact_func :: "pystr list \<Rightarrow> AddressBook \<Rightarrow> (py_error + pystr) \<times> AddressBook" where
  "add_contact_func [nm, phone] contacts =
     (case find_record contacts nm of
        Some existing \<Rightarrow> (Inl (ValueError ''Contact already exists.''), contacts)
      | None \<Rightarrow>
          (case Record_init nm of
             Inl e \<Rightarrow> (Inl e, contacts)
           | Inr record \<Rightarrow>
               (case add_phone record phone of
                  (Inl e, record') \<Rightarrow> (Inl e, contacts)
                | (Inr u, record') \<Rightarrow> (Inr ''Contact added.'', add_record contacts record'))))"
| "add_contact_func args contacts =
     (Inl (ValueError ''Command requires exactly 2 arguments (name and phone).''), contacts)"

definition add_contact :: "pystr list \<Rightarrow> AddressBook \<Rightarrow> pystr \<times> AddressBook" where
  "add_contact args contacts = input_error (add_contact_func args) contacts"

text \<open>
  \<^verbatim>\<open>change_contact\<close> mutates the record object that \<^verbatim>\<open>find\<close> returned, which is the
  object stored in the directory under the name looked up: the item under that key
  shows the record as \<^verbatim>\<open>edit_phone\<close> left it, also when \<^verbatim>\<open>edit_phone\<close> raised.
\<close>

fun mutate_item :: "AddressBook \<Rightarrow> pystr \<Rightarrow> Record \<Rightarrow> AddressBook" where
  "mutate_item [] k record = []"
| "mutate_item ((k', v') # d) k record =
     (if k' = k then (k', record) # d else (k', v') # mutate_item d k record)"

fun change_contact_func :: "pystr list \<Rightarrow> AddressBook \<Rightarrow> (py_error + pystr) \<times> AddressBook" where
  "change_contact_func [nm, new_phone] contacts =
     (case find_record contacts nm of
        Some record \<Rightarrow>
          (case phones record of
             [] \<Rightarrow> (Inl (IndexError ''list index out of range''), contacts)
           | first # others \<Rightarrow>
               (case edit_phone record (Phone_value first) new_phone of
                  (Inl e, record') \<Rightarrow> (Inl e, mutate_item contacts nm record')
                | (Inr u, record') \<Rightarrow>
                    (Inr ''Contact updated.'', mutate_item contacts nm record')))
      | None \<Rightarrow> (Inl (KeyError ''Contact not found.''), contacts))"
| "change_contact_func args contacts =
     (Inl (ValueError ''Command requires exactly 2 arguments (name and new phone).''),
      contacts)"

definition change_contact :: "pystr list \<Rightarrow> AddressBook \<Rightarrow> pystr \<times> AddressBook" where
  "change_contact args contacts = input_error (change_contact_func args) contacts"

fun show_phone_func :: "pystr list \<Rightarrow> AddressBook \<Rightarrow> (py_error + pystr) \<times> AddressBook" where
  "show_phone_func [nm] contacts =
     (case find_record contacts nm of
        Some record \<Rightarrow>
          (Inr (nm @ '': '' @ join '', '' (map Phone_value (phones record))), contacts)
      | None \<Rightarrow> (Inl (KeyError ''Contact not found.''), contacts))"
| "show_phone_func args contacts =
     (Inl (IndexError ''Command requires exactly 1 argument (name).''), contacts)"

definition show_phone :: "pystr list \<Rightarrow> AddressBook \<Rightarrow> pystr \<times> AddressBook" where
  "show_phone args contacts = input_error (show_phone_func args) contacts"

definition show_all_func :: "AddressBook \<Rightarrow> (py_error + pystr) \<times> AddressBook" where
  "show_all_func contacts =
     (if contacts \<noteq> [] then (Inr (AddressBook_str contacts), contacts)
      else (Inr ''No contacts found.'', contacts))"

definition show_all :: "AddressBook \<Rightarrow> pystr \<times> AddressBook" where
  "show_all contacts = input_error show_all_func contacts"

section \<open>Parsing a line and the command loop\<close>

text \<open>
  Whitespace for \<^verbatim>\<open>str.strip()\<close> and \<^verbatim>\<open>str.split()\<close> is what \<^verbatim>\<open>str.isspace\<close> accepts:
  below 256 the code points 9..13, 28..32, 133 and 160. \<^verbatim>\<open>str.lower()\<close> maps
  \<^verbatim>\<open>A\<close>..\<^verbatim>\<open>Z\<close> (65..90) and the capital letters 192..214 and 216..222 to the code
  point 32 above and leaves every other code point below 256 as it is.
\<close>

definition isspace_char :: "char \<Rightarrow> bool" where
  "isspace_char c =
     (let n = (of_char c :: nat)
      in (9 \<le> n \<and> n \<le> 13) \<or> (28 \<le> n \<and> n \<le> 32) \<or> n = 133 \<or> n = 160)"

definition lower_char :: "char \<Rightarrow> char" where
  "lower_char c =
     (let n = (of_char c :: nat)
      in if (65 \<le> n \<and> n \<le> 90) \<or> (192 \<le> n \<and> n \<le> 214) \<or> (216 \<le> n \<and> n \<le> 222)
         then char_of (n + 32) else c)"

definition lower :: "pystr \<Rightarrow> pystr" where
  "lower s = map lower_char s"

definition strip :: "pystr \<Rightarrow> pystr" where
  "strip s = rev (dropWhile isspace_char (rev (dropWhile isspace_char s)))"

text \<open>
  \<^verbatim>\<open>str.split()\<close> without a separator: the maximal runs of characters that are not
  whitespace, in order; \<open>cur\<close> is the run being read.
\<close>

fun split_loop :: "pystr \<Rightarrow> pystr \<Rightarrow> pystr list" where
  "split_loop cur [] = (if cur = [] then [] else [cur])"
| "split_loop cur (c # cs) =
     (if isspace_char c then (if cur = [] then split_loop [] cs else cur # split_loop [] cs)
      else split_loop (cur @ [c]) cs)"

definition split :: "pystr \<Rightarrow> pystr list" where
  "split s = split_loop [] s"

text \<open>
  \<^verbatim>\<open>cmd, *args = ...\<close> needs at least one item and raises \<^verbatim>\<open>ValueError\<close> on an empty
  list.
\<close>

definition parse_input :: "pystr \<Rightarrow> py_error + (pystr \<times> pystr list)" where
  "parse_input user_input =
     (case split (lower (strip user_input)) of
        [] \<Rightarrow> Inl (ValueError ''not enough values to unpack (expected at least 1, got 0)'')
      | cmd # args \<Rightarrow> Inr (cmd, args))"

text \<open>
  One round of the \<^verbatim>\<open>while True\<close> loop of \<^verbatim>\<open>main\<close> on the line read: it prints a
  message and goes on with the directory, or prints the farewell and leaves the loop, or
  an exception leaves \<^verbatim>\<open>main\<close> and ends the process. \<^verbatim>\<open>parse_input\<close> is called outside
  any \<^verbatim>\<open>try\<close>.
\<close>

datatype outcome = Printed pystr AddressBook | Terminated pystr | Crashed py_error

definition main_step :: "AddressBook \<Rightarrow> pystr \<Rightarrow> outcome" where
  "main_step contacts user_input =
     (case parse_input user_input of
        Inl e \<Rightarrow> Crashed e
      | Inr (command, args) \<Rightarrow>
          if command \<in> set [''close'', ''exit''] then Terminated ''Good bye!''
          else if command = ''hello'' then Printed ''How can I help you?'' contacts
          else if command = ''add'' then
            (case add_contact args contacts of (msg, contacts') \<Rightarrow> Printed msg contacts')
          else if command = ''change'' then
            (case change_contact args contacts of (msg, contacts') \<Rightarrow> Printed msg contacts')
          else if command = ''phone'' then
            (case show_phone args contacts of (msg, contacts') \<Rightarrow> Printed msg contacts')
          else if command = ''all'' then
            (case show_all contacts of (msg, contacts') \<Rightarrow> Printed msg contacts')
          else if command = ''help'' then
            Printed ''Available commands: hello, add, change, phone, all, close, exit'' contacts
          else
            Printed ''Invalid command. Type 'help' to see the list of available commands.''
              contacts)"

text \<open>
  The loop over the lines typed so far, from a given directory: the messages printed (the
  prompts left out) and where the loop stands after the last line.
\<close>

datatype loop_state = Waiting AddressBook | Exited | Crash py_error

fun main_loop :: "AddressBook \<Rightarrow> pystr list \<Rightarrow> pystr list \<times> loop_state" where
  "main_loop contacts [] = ([], Waiting contacts)"
| "main_loop contacts (user_input # rest) =
     (case main_step contacts user_input of
        Printed msg contacts' \<Rightarrow>
          (case main_loop contacts' rest of (out, st) \<Rightarrow> (msg # out, st))
      | Terminated msg \<Rightarrow> ([msg], Exited)
      | Crashed e \<Rightarrow> ([], Crash e))"

definition main :: "pystr list \<Rightarrow> pystr list \<times> loop_state" where
  "main inputs =
     (case main_loop [] inputs of (out, st) \<Rightarrow> (''Welcome to the assistant bot!'' # out, st))"

section \<open>Phones and records: basic facts\<close>

lemma Phone_value_eq: "Phone_value p = s \<longleftrightarrow> p = Phone s"
  by (cases p) auto

lemma find_phone_loop_None: "find_phone_loop ps s = None \<longleftrightarrow> Phone s \<notin> set ps"
  by (induction ps) (auto simp: Phone_value_eq)

lemma find_phone_loop_Some:
  "find_phone_loop ps s = Some p \<longleftrightarrow> p = Phone s \<and> Phone s \<in> set ps"
  by (induction ps) (auto simp: Phone_value_eq)

lemma list_remove_in: "x \<in> set ys \<Longrightarrow> list_remove ys x = Inr (remove1 x ys)"
  by (induction ys) auto

lemma remove1_first_split:
  "x \<in> set ys \<Longrightarrow> \<exists>pre post. ys = pre @ x # post \<and> x \<notin> set pre \<and> remove1 x ys = pre @ post"
proof -
  assume "x \<in> set ys"
  then obtain pre post where s: "ys = pre @ x # post" "x \<notin> set pre"
    by (auto dest: split_list_first)
  then have "remove1 x ys = pre @ post"
    by (simp add: remove1_append)
  with s show ?thesis by blast
qed

lemma remove_phone_absent:
  "Phone s \<notin> set (phones r) \<Longrightarrow>
     remove_phone r s = (Inl (ValueError ''Phone number not found''), r)"
proof -
  assume "Phone s \<notin> set (phones r)"
  then have "find_phone r s = None"
    by (simp add: find_phone_def find_phone_loop_None)
  then show ?thesis
    by (simp add: remove_phone_def)
qed

lemma remove_phone_present:
  "Phone s \<in> set (phones r) \<Longrightarrow>
     remove_phone r s = (Inr (), r\<lparr>phones := remove1 (Phone s) (phones r)\<rparr>)"
proof -
  assume a: "Phone s \<in> set (phones r)"
  then have "find_phone r s = Some (Phone s)"
    by (simp add: find_phone_def find_phone_loop_Some)
  with a show ?thesis
    by (simp add: remove_phone_def list_remove_in)
qed

lemma edit_phone_fails_after_remove:
  assumes "find_phone r old \<noteq> None" and "\<not> validate_phone new"
  shows "edit_phone r old new =
           (Inl (ValueError ''Phone number must be 10 digits''),
            r\<lparr>phones := remove1 (Phone old) (phones r)\<rparr>)"
proof -
  from assms(1) have mem: "Phone old \<in> set (phones r)"
    by (simp add: find_phone_def find_phone_loop_None)
  then have f: "find_phone r old = Some (Phone old)"
    by (simp add: find_phone_def find_phone_loop_Some)
  show ?thesis
    using assms(2)
    by (simp add: edit_phone_def f remove_phone_present [OF mem] add_phone_def Phone_init_def)
qed

lemma validate_phone_iff:
  "validate_phone s \<longleftrightarrow> length s = 10 \<and> list_all isdigit_char s"
  by (auto simp: validate_phone_def isdigit_def)

section \<open>Phone validation\<close>

text \<open>
  What \<^verbatim>\<open>validate_phone\<close> computes: the constructor returns a \<^verbatim>\<open>Phone\<close> holding the
  string as it is when the string has 10 characters and \<^verbatim>\<open>str.isdigit\<close> is true of each,
  and raises \<^verbatim>\<open>Phone number must be 10 digits\<close> otherwise. On strings of ASCII characters
  this is the test for ten decimal digits \<^verbatim>\<open>0\<close>..\<^verbatim>\<open>9\<close>.
\<close>

lemma Phone_init_cases:
  "Phone_init s =
     (if length s = 10 \<and> list_all isdigit_char s then Inr (Phone s)
      else Inl (ValueError ''Phone number must be 10 digits''))"
  by (simp add: Phone_init_def validate_phone_iff)

lemma ascii_digit_isdigit_char: "ascii_digit c \<Longrightarrow> isdigit_char c"
  by (simp add: ascii_digit_def isdigit_char_def Let_def)

lemma isdigit_char_ascii:
  "(of_char c :: nat) < 128 \<Longrightarrow> isdigit_char c \<Longrightarrow> ascii_digit c"
  by (auto simp: ascii_digit_def isdigit_char_def Let_def)

lemma Phone_init_on_ascii:
  "list_all (\<lambda>c. (of_char c :: nat) < 128) s \<Longrightarrow>
     (\<exists>p. Phone_init s = Inr p) \<longleftrightarrow> length s = 10 \<and> list_all ascii_digit s"
  by (auto simp: Phone_init_cases list_all_iff
      intro: ascii_digit_isdigit_char isdigit_char_ascii)

text \<open>
  C1 at the failing input. The claim: the \<^verbatim>\<open>Phone\<close> constructor succeeds exactly when
  the string consists of exactly 10 characters each of which is a decimal digit
  \<^verbatim>\<open>0\<close>..\<^verbatim>\<open>9\<close>, and fails with the error \<^verbatim>\<open>Phone number must be 10 digits\<close> on any
  other string. The code: the string of ten superscript twos (code point 178) has ten
  characters, none of them one of \<^verbatim>\<open>0\<close>..\<^verbatim>\<open>9\<close>, and the constructor accepts it and
  stores it, because \<^verbatim>\<open>str.isdigit\<close> is true of it; the error the claim requires there is
  not raised.
\<close>

theorem Phone_init_accepts_superscripts:
  "Phone_init [CHR 0xB2, CHR 0xB2, CHR 0xB2, CHR 0xB2, CHR 0xB2,
               CHR 0xB2, CHR 0xB2, CHR 0xB2, CHR 0xB2, CHR 0xB2]
     = Inr (Phone [CHR 0xB2, CHR 0xB2, CHR 0xB2, CHR 0xB2, CHR 0xB2,
                   CHR 0xB2, CHR 0xB2, CHR 0xB2, CHR 0xB2, CHR 0xB2])
   \<and> Phone_init [CHR 0xB2, CHR 0xB2, CHR 0xB2, CHR 0xB2, CHR 0xB2,
                 CHR 0xB2, CHR 0xB2, CHR 0xB2, CHR 0xB2, CHR 0xB2]
     \<noteq> Inl (ValueError ''Phone number must be 10 digits'')
   \<and> length [CHR 0xB2, CHR 0xB2, CHR 0xB2, CHR 0xB2, CHR 0xB2,
              CHR 0xB2, CHR 0xB2, CHR 0xB2, CHR 0xB2, CHR 0xB2] = 10
   \<and> \<not> list_all ascii_digit [CHR 0xB2, CHR 0xB2, CHR 0xB2, CHR 0xB2, CHR 0xB2,
                              CHR 0xB2, CHR 0xB2, CHR 0xB2, CHR 0xB2, CHR 0xB2]"
  by (simp add: Phone_init_def validate_phone_def isdigit_def isdigit_char_def ascii_digit_def)

section \<open>Editing and removing a phone\<close>

text \<open>
  C2, as stated, at a concrete input: a record may hold the same number twice
  (\<^verbatim>\<open>add_phone\<close> makes no check for duplicates). Editing that number to an invalid one
  fails with the validation error after one of the two has been removed, and the record
  still contains the old number.
\<close>

theorem edit_phone_duplicate_counterexample:
  "find_phone \<lparr>name = Name ''john'', phones = [Phone ''1234567890'', Phone ''1234567890'']\<rparr>
       ''1234567890'' = Some (Phone ''1234567890'')
   \<and> Phone_init ''12345'' = Inl (ValueError ''Phone number must be 10 digits'')
   \<and> edit_phone \<lparr>name = Name ''john'', phones = [Phone ''1234567890'', Phone ''1234567890'']\<rparr>
        ''1234567890'' ''12345''
      = (Inl (ValueError ''Phone number must be 10 digits''),
         \<lparr>name = Name ''john'', phones = [Phone ''1234567890'']\<rparr>)
   \<and> find_phone \<lparr>name = Name ''john'', phones = [Phone ''1234567890'']\<rparr> ''1234567890''
      = Some (Phone ''1234567890'')"
  by (simp add: edit_phone_def remove_phone_def find_phone_def add_phone_def Phone_init_def
      validate_phone_def)

text \<open>
  C2, amended: when the record contains a phone equal to \<open>old\<close> and \<open>new\<close> fails
  phone validation, \<^verbatim>\<open>edit_phone(old, new)\<close> fails with the validation error and leaves
  the record with the first occurrence of \<open>old\<close> removed and nothing added or restored
  (the edit is not atomic); afterwards the record no longer contains \<open>old\<close> exactly when
  \<open>old\<close> occurred once in its list.
\<close>

theorem edit_phone_invalid_new:
  assumes "find_phone r old \<noteq> None" and "\<not> validate_phone new"
  shows "edit_phone r old new =
           (Inl (ValueError ''Phone number must be 10 digits''),
            r\<lparr>phones := remove1 (Phone old) (phones r)\<rparr>)
         \<and> (\<exists>pre post. phones r = pre @ Phone old # post \<and> Phone old \<notin> set pre
               \<and> phones (snd (edit_phone r old new)) = pre @ post)
         \<and> (find_phone (snd (edit_phone r old new)) old = None
              \<longleftrightarrow> count_list (phones r) (Phone old) = 1)"
proof -
  from assms(1) have mem: "Phone old \<in> set (phones r)"
    by (simp add: find_phone_def find_phone_loop_None)
  have e: "edit_phone r old new =
           (Inl (ValueError ''Phone number must be 10 digits''),
            r\<lparr>phones := remove1 (Phone old) (phones r)\<rparr>)"
    using assms by (rule edit_phone_fails_after_remove)
  from remove1_first_split [OF mem] obtain pre post where
    sp: "phones r = pre @ Phone old # post" "Phone old \<notin> set pre"
        "remove1 (Phone old) (phones r) = pre @ post" by blast
  have c: "count_list (phones r) (Phone old) = Suc (count_list post (Phone old))"
    using sp(1,2) by (simp add: count_list_0_iff)
  have "find_phone (snd (edit_phone r old new)) old = None \<longleftrightarrow> Phone old \<notin> set post"
    using sp by (simp add: e find_phone_def find_phone_loop_None)
  also have "\<dots> \<longleftrightarrow> count_list (phones r) (Phone old) = 1"
    by (simp add: c count_list_0_iff)
  finally have d: "find_phone (snd (edit_phone r old new)) old = None
              \<longleftrightarrow> count_list (phones r) (Phone old) = 1" .
  from sp have "\<exists>pre post. phones r = pre @ Phone old # post \<and> Phone old \<notin> set pre
               \<and> phones (snd (edit_phone r old new)) = pre @ post"
    by (auto simp: e)
  with e d show ?thesis by blast
qed

theorem edit_phone_invalid_new_witness:
  "find_phone \<lparr>name = Name ''john'', phones = [Phone ''1234567890'']\<rparr> ''1234567890'' \<noteq> None
   \<and> \<not> validate_phone ''12345''
   \<and> edit_phone \<lparr>name = Name ''john'', phones = [Phone ''1234567890'']\<rparr> ''1234567890'' ''12345''
       = (Inl (ValueError ''Phone number must be 10 digits''), \<lparr>name = Name ''john'', phones = []\<rparr>)
   \<and> find_phone (snd (edit_phone \<lparr>name = Name ''john'', phones = [Phone ''1234567890'']\<rparr>
         ''1234567890'' ''12345'')) ''1234567890'' = None"
proof -
  have h1: "find_phone \<lparr>name = Name ''john'', phones = [Phone ''1234567890'']\<rparr> ''1234567890'' \<noteq> None"
    by (simp add: find_phone_def)
  have h2: "\<not> validate_phone ''12345''"
    by (simp add: validate_phone_def)
  from edit_phone_invalid_new [OF h1 h2]
  have e: "edit_phone \<lparr>name = Name ''john'', phones = [Phone ''1234567890'']\<rparr> ''1234567890'' ''12345''
       = (Inl (ValueError ''Phone number must be 10 digits''), \<lparr>name = Name ''john'', phones = []\<rparr>)"
    by simp
  have "find_phone \<lparr>name = Name ''john'', phones = []\<rparr> ''1234567890'' = None"
    by (simp add: find_phone_def)
  with h1 h2 e show ?thesis by simp
qed

text \<open>
  C7: when no phone of the record has the value \<open>s\<close>, \<^verbatim>\<open>remove_phone(s)\<close> fails with
  the error \<^verbatim>\<open>Phone number not found\<close> and the record, its phone list included, is
  unchanged; otherwise it removes exactly the first phone in list order whose value is
  \<open>s\<close>: the phones before it, none of which has that value, and the phones after it
  stay as they are.
\<close>

theorem remove_phone_first_match:
  "(find_phone r s = None \<longleftrightarrow> (\<forall>p \<in> set (phones r). Phone_value p \<noteq> s))
   \<and> (find_phone r s = None \<longrightarrow>
        remove_phone r s = (Inl (ValueError ''Phone number not found''), r))
   \<and> (find_phone r s \<noteq> None \<longrightarrow>
        remove_phone r s = (Inr (), r\<lparr>phones := remove1 (Phone s) (phones r)\<rparr>)
        \<and> (\<exists>pre p post. phones r = pre @ p # post \<and> Phone_value p = s
              \<and> (\<forall>q \<in> set pre. Phone_value q \<noteq> s)
              \<and> remove1 (Phone s) (phones r) = pre @ post))"
proof -
  have a: "find_phone r s = None \<longleftrightarrow> (\<forall>p \<in> set (phones r). Phone_value p \<noteq> s)"
    by (auto simp: find_phone_def find_phone_loop_None Phone_value_eq)
  have b: "find_phone r s = None \<longrightarrow>
        remove_phone r s = (Inl (ValueError ''Phone number not found''), r)"
    by (simp add: find_phone_def find_phone_loop_None remove_phone_absent)
  have c: "find_phone r s \<noteq> None \<longrightarrow>
        remove_phone r s = (Inr (), r\<lparr>phones := remove1 (Phone s) (phones r)\<rparr>)
        \<and> (\<exists>pre p post. phones r = pre @ p # post \<and> Phone_value p = s
              \<and> (\<forall>q \<in> set pre. Phone_value q \<noteq> s)
              \<and> remove1 (Phone s) (phones r) = pre @ post)"
  proof
    assume "find_phone r s \<noteq> None"
    then have mem: "Phone s \<in> set (phones r)"
      by (simp add: find_phone_def find_phone_loop_None)
    from remove1_first_split [OF mem] obtain pre post where
      sp: "phones r = pre @ Phone s # post" "Phone s \<notin> set pre"
        "remove1 (Phone s) (phones r) = pre @ post" by blast
    have "\<forall>q \<in> set pre. Phone_value q \<noteq> s"
      using sp(2) by (auto simp: Phone_value_eq)
    with sp(1,3) have "\<exists>pre p post. phones r = pre @ p # post \<and> Phone_value p = s
              \<and> (\<forall>q \<in> set pre. Phone_value q \<noteq> s)
              \<and> remove1 (Phone s) (phones r) = pre @ post"
      by (intro exI [of _ pre] exI [of _ "Phone s"] exI [of _ post]) simp
    with remove_phone_present [OF mem]
    show "remove_phone r s = (Inr (), r\<lparr>phones := remove1 (Phone s) (phones r)\<rparr>)
        \<and> (\<exists>pre p post. phones r = pre @ p # post \<and> Phone_value p = s
              \<and> (\<forall>q \<in> set pre. Phone_value q \<noteq> s)
              \<and> remove1 (Phone s) (phones r) = pre @ post)"
      by blast
  qed
  from a b c show ?thesis by blast
qed

theorem remove_phone_first_match_witness:
  "find_phone \<lparr>name = Name ''john'', phones = [Phone ''1112223333'']\<rparr> ''0000000000'' = None
   \<and> remove_phone \<lparr>name = Name ''john'', phones = [Phone ''1112223333'']\<rparr> ''0000000000''
       = (Inl (ValueError ''Phone number not found''),
          \<lparr>name = Name ''john'', phones = [Phone ''1112223333'']\<rparr>)
   \<and> find_phone \<lparr>name = Name ''john'',
         phones = [Phone ''1112223333'', Phone ''0000000000'', Phone ''0000000000'']\<rparr>
         ''0000000000'' \<noteq> None
   \<and> remove_phone \<lparr>name = Name ''john'',
         phones = [Phone ''1112223333'', Phone ''0000000000'', Phone ''0000000000'']\<rparr>
         ''0000000000''
       = (Inr (), \<lparr>name = Name ''john'', phones = [Phone ''1112223333'', Phone ''0000000000'']\<rparr>)"
proof -
  let ?r1 = "\<lparr>name = Name ''john'', phones = [Phone ''1112223333'']\<rparr>"
  let ?r2 = "\<lparr>name = Name ''john'',
         phones = [Phone ''1112223333'', Phone ''0000000000'', Phone ''0000000000'']\<rparr>"
  have h1: "find_phone ?r1 ''0000000000'' = None"
    by (simp add: find_phone_def)
  have h2: "find_phone ?r2 ''0000000000'' \<noteq> None"
    by (simp add: find_phone_def)
  from remove_phone_first_match [of ?r1 "''0000000000''"] h1
  have c1: "remove_phone ?r1 ''0000000000'' = (Inl (ValueError ''Phone number not found''), ?r1)"
    by blast
  from remove_phone_first_match [of ?r2 "''0000000000''"] h2
  have "remove_phone ?r2 ''0000000000''
          = (Inr (), ?r2\<lparr>phones := remove1 (Phone ''0000000000'') (phones ?r2)\<rparr>)"
    by blast
  then have c2: "remove_phone ?r2 ''0000000000''
       = (Inr (), \<lparr>name = Name ''john'', phones = [Phone ''1112223333'', Phone ''0000000000'']\<rparr>)"
    by simp
  from h1 h2 c1 c2 show ?thesis by simp
qed

section \<open>The directory: basic facts\<close>

lemma dict_contains_iff: "dict_contains d k \<longleftrightarrow> k \<in> fst ` set d"
  by (induction d) auto

lemma dict_get_None_iff: "dict_get d k = None \<longleftrightarrow> k \<notin> fst ` set d"
  by (induction d) force+

lemma dict_get_setitem:
  "dict_get (dict_setitem d k v) k' = (if k' = k then Some v else dict_get d k')"
  by (induction d) auto

lemma keys_setitem:
  "map fst (dict_setitem d k v) =
     (if k \<in> fst ` set d then map fst d else map fst d @ [k])"
  by (induction d) force+

lemma dict_delitem_split:
  "k \<in> fst ` set d \<Longrightarrow>
     \<exists>pre v post. d = pre @ (k, v) # post \<and> k \<notin> fst ` set pre
        \<and> dict_delitem d k = Inr (pre @ post)"
proof (induction d)
  case Nil
  then show ?case by simp
next
  case (Cons a d)
  obtain k' v' where a: "a = (k', v')" by (cases a)
  show ?case
  proof (cases "k' = k")
    case True
    then have "a # d = [] @ (k, v') # d \<and> k \<notin> fst ` set [] \<and> dict_delitem (a # d) k = Inr ([] @ d)"
      by (simp add: a)
    then show ?thesis by blast
  next
    case False
    with Cons.prems a have "k \<in> fst ` set d" by auto
    from Cons.IH [OF this] obtain pre v post where
      sp: "d = pre @ (k, v) # post" "k \<notin> fst ` set pre" "dict_delitem d k = Inr (pre @ post)"
      by blast
    have "a # d = (a # pre) @ (k, v) # post \<and> k \<notin> fst ` set (a # pre)
          \<and> dict_delitem (a # d) k = Inr ((a # pre) @ post)"
      using sp False by (simp add: a)
    then show ?thesis by blast
  qed
qed

lemma dict_get_append:
  "dict_get (xs @ ys) k = (case dict_get xs k of None \<Rightarrow> dict_get ys k | Some v \<Rightarrow> Some v)"
  by (induction xs) auto

lemma key_inv_setitem:
  "key_inv d \<Longrightarrow> key_inv (dict_setitem d (Name_value (name r)) r)"
  by (induction d) (auto simp: key_inv_def)

lemma key_inv_delete: "key_inv d \<Longrightarrow> key_inv (snd (delete d nm))"
proof (cases "nm \<in> fst ` set d")
  case True
  assume k: "key_inv d"
  from dict_delitem_split [OF True] obtain pre v post where
    sp: "d = pre @ (nm, v) # post" "dict_delitem d nm = Inr (pre @ post)" by blast
  have "key_inv (pre @ post)"
    using k sp(1) by (simp add: key_inv_def)
  then show ?thesis
    using True sp(2) by (simp add: delete_def dict_contains_iff)
next
  case False
  assume "key_inv d"
  with False show ?thesis
    by (simp add: delete_def dict_contains_iff)
qed

lemma key_inv_apply_op: "key_inv d \<Longrightarrow> key_inv (apply_op d op)"
  by (cases op) (simp_all add: add_record_def key_inv_setitem key_inv_delete)

lemma key_inv_foldl: "key_inv d \<Longrightarrow> key_inv (foldl apply_op d ops)"
  by (induction ops arbitrary: d) (simp_all add: key_inv_apply_op)

lemma key_inv_get: "key_inv d \<Longrightarrow> dict_get d k = Some r \<Longrightarrow> Name_value (name r) = k"
  by (induction d) (auto simp: key_inv_def split: if_splits)

lemma join_spec_joined: "join sep xs = spec_joined sep xs"
  by (induction sep xs rule: join.induct) (simp_all add: spec_joined_def)

section \<open>Adding, finding and deleting records\<close>

text \<open>
  C3: \<^verbatim>\<open>add_record\<close> has no failing path (it is a total function with no error
  result): it stores the record under its own name, so that \<^verbatim>\<open>find\<close> of that name
  returns this record whatever was stored there before, the other keys keep their
  records, and the key keeps its place or is appended when new. The \<^verbatim>\<open>add\<close> command,
  when a record for the given name already exists, answers
  \<^verbatim>\<open>Error: Contact already exists.\<close>, which contains \<^verbatim>\<open>already exists\<close>, and leaves
  the directory unchanged.
\<close>

theorem add_record_overwrites_add_contact_rejects:
  "find_record (add_record contacts record) (Name_value (name record)) = Some record
   \<and> (\<forall>k. k \<noteq> Name_value (name record) \<longrightarrow>
         find_record (add_record contacts record) k = find_record contacts k)
   \<and> map fst (add_record contacts record) =
       (if Name_value (name record) \<in> fst ` set contacts then map fst contacts
        else map fst contacts @ [Name_value (name record)])
   \<and> (find_record contacts nm \<noteq> None \<longrightarrow>
        add_contact [nm, phone] contacts = (''Error: Contact already exists.'', contacts)
        \<and> sublist ''already exists'' (fst (add_contact [nm, phone] contacts)))"
proof -
  have s: "sublist ''already exists'' ''Error: Contact already exists.''"
    unfolding sublist_def
    by (intro exI [of _ "''Error: Contact ''"] exI [of _ "''.''"]) simp
  have "find_record contacts nm \<noteq> None \<longrightarrow>
        add_contact [nm, phone] contacts = (''Error: Contact already exists.'', contacts)"
    by (auto simp: add_contact_def input_error_def)
  with s show ?thesis
    by (simp add: find_record_def add_record_def dict_get_setitem keys_setitem)
qed

theorem add_record_overwrites_add_contact_rejects_witness:
  "find_record [(''john'', \<lparr>name = Name ''john'', phones = [Phone ''1234567890'']\<rparr>)] ''john'' \<noteq> None
   \<and> add_contact [''john'', ''0000000000'']
         [(''john'', \<lparr>name = Name ''john'', phones = [Phone ''1234567890'']\<rparr>)]
       = (''Error: Contact already exists.'',
          [(''john'', \<lparr>name = Name ''john'', phones = [Phone ''1234567890'']\<rparr>)])
   \<and> ''ann'' \<noteq> Name_value (name \<lparr>name = Name ''john'', phones = []\<rparr>)
   \<and> find_record (add_record [(''john'', \<lparr>name = Name ''john'', phones = [Phone ''1234567890'']\<rparr>)]
          \<lparr>name = Name ''john'', phones = []\<rparr>) ''ann'' = None
   \<and> find_record (add_record [(''john'', \<lparr>name = Name ''john'', phones = [Phone ''1234567890'']\<rparr>)]
          \<lparr>name = Name ''john'', phones = []\<rparr>) ''john'' = Some \<lparr>name = Name ''john'', phones = []\<rparr>"
proof -
  let ?c = "[(''john'', \<lparr>name = Name ''john'', phones = [Phone ''1234567890'']\<rparr>)]"
  let ?r = "\<lparr>name = Name ''john'', phones = []\<rparr>"
  have h1: "find_record ?c ''john'' \<noteq> None"
    by (simp add: find_record_def)
  have h2: "''ann'' \<noteq> Name_value (name ?r)"
    by simp
  have g: "find_record ?c ''ann'' = None"
    by (simp add: find_record_def)
  note t = add_record_overwrites_add_contact_rejects
             [of ?c ?r "''john''" "''0000000000''"]
  from t h1 have c1: "add_contact [''john'', ''0000000000''] ?c
       = (''Error: Contact already exists.'', ?c)"
    by blast
  from t h2 g have c2: "find_record (add_record ?c ?r) ''ann'' = None"
    by metis
  from t have c3: "find_record (add_record ?c ?r) ''john'' = Some ?r"
    by simp
  from h1 h2 c1 c2 c3 show ?thesis by blast
qed

text \<open>
  C6: \<^verbatim>\<open>name in self.data\<close> holds exactly when the name is a key. When it is not,
  \<^verbatim>\<open>delete\<close> fails with the error \<^verbatim>\<open>Record not found\<close> and the directory, hence its
  size, is unchanged. When it is, \<^verbatim>\<open>delete\<close> succeeds and takes out exactly the item
  under that name: the items before and after it stay in place, the size drops by one,
  every other name finds what it found before, and (keys being unique in a \<^verbatim>\<open>dict\<close>)
  the name is no longer found.
\<close>

theorem delete_record:
  "(dict_contains contacts nm \<longleftrightarrow> nm \<in> fst ` set contacts)
   \<and> (nm \<notin> fst ` set contacts \<longrightarrow>
        delete contacts nm = (Inl (ValueError ''Record not found''), contacts))
   \<and> (nm \<in> fst ` set contacts \<longrightarrow>
        (\<exists>pre record post. contacts = pre @ (nm, record) # post \<and> nm \<notin> fst ` set pre
            \<and> delete contacts nm = (Inr (), pre @ post))
        \<and> length (snd (delete contacts nm)) + 1 = length contacts
        \<and> (\<forall>k. k \<noteq> nm \<longrightarrow>
              find_record (snd (delete contacts nm)) k = find_record contacts k))
   \<and> (nm \<in> fst ` set contacts \<and> distinct (map fst contacts) \<longrightarrow>
        find_record (snd (delete contacts nm)) nm = None)"
proof -
  have a: "nm \<notin> fst ` set contacts \<longrightarrow>
        delete contacts nm = (Inl (ValueError ''Record not found''), contacts)"
    by (simp add: delete_def dict_contains_iff)
  have b: "nm \<in> fst ` set contacts \<longrightarrow>
        (\<exists>pre record post. contacts = pre @ (nm, record) # post \<and> nm \<notin> fst ` set pre
            \<and> delete contacts nm = (Inr (), pre @ post))
        \<and> length (snd (delete contacts nm)) + 1 = length contacts
        \<and> (\<forall>k. k \<noteq> nm \<longrightarrow>
              find_record (snd (delete contacts nm)) k = find_record contacts k)"
  proof
    assume m: "nm \<in> fst ` set contacts"
    from dict_delitem_split [OF m] obtain pre v post where
      sp: "contacts = pre @ (nm, v) # post" "nm \<notin> fst ` set pre"
          "dict_delitem contacts nm = Inr (pre @ post)" by blast
    have d: "delete contacts nm = (Inr (), pre @ post)"
      using m sp(3) by (simp add: delete_def dict_contains_iff)
    have l: "length (snd (delete contacts nm)) + 1 = length contacts"
      unfolding d using sp(1) by simp
    have g: "\<forall>k. k \<noteq> nm \<longrightarrow>
              find_record (snd (delete contacts nm)) k = find_record contacts k"
      unfolding d using sp(1) by (auto simp: find_record_def dict_get_append split: option.splits)
    from sp(1,2) d l g show "(\<exists>pre record post. contacts = pre @ (nm, record) # post \<and> nm \<notin> fst ` set pre
            \<and> delete contacts nm = (Inr (), pre @ post))
        \<and> length (snd (delete contacts nm)) + 1 = length contacts
        \<and> (\<forall>k. k \<noteq> nm \<longrightarrow>
              find_record (snd (delete contacts nm)) k = find_record contacts k)"
      by blast
  qed
  have c: "nm \<in> fst ` set contacts \<and> distinct (map fst contacts) \<longrightarrow>
        find_record (snd (delete contacts nm)) nm = None"
  proof
    assume h: "nm \<in> fst ` set contacts \<and> distinct (map fst contacts)"
    from dict_delitem_split [of nm contacts] h obtain pre v post where
      sp: "contacts = pre @ (nm, v) # post" "nm \<notin> fst ` set pre"
          "dict_delitem contacts nm = Inr (pre @ post)" by blast
    have d: "delete contacts nm = (Inr (), pre @ post)"
      using h sp(3) by (simp add: delete_def dict_contains_iff)
    have "nm \<notin> fst ` set post"
      using h sp(1) by auto
    with sp(2) have "nm \<notin> fst ` set (pre @ post)" by auto
    then show "find_record (snd (delete contacts nm)) nm = None"
      by (simp add: d find_record_def dict_get_None_iff del: set_append)
  qed
  from a b c show ?thesis
    by (simp add: dict_contains_iff)
qed

theorem delete_record_witness:
  "''bob'' \<notin> fst ` set [(''ann'', \<lparr>name = Name ''ann'', phones = []\<rparr>),
                         (''john'', \<lparr>name = Name ''john'', phones = [Phone ''1234567890'']\<rparr>)]
   \<and> delete [(''ann'', \<lparr>name = Name ''ann'', phones = []\<rparr>),
              (''john'', \<lparr>name = Name ''john'', phones = [Phone ''1234567890'']\<rparr>)] ''bob''
       = (Inl (ValueError ''Record not found''),
          [(''ann'', \<lparr>name = Name ''ann'', phones = []\<rparr>),
           (''john'', \<lparr>name = Name ''john'', phones = [Phone ''1234567890'']\<rparr>)])
   \<and> ''ann'' \<in> fst ` set [(''ann'', \<lparr>name = Name ''ann'', phones = []\<rparr>),
                         (''john'', \<lparr>name = Name ''john'', phones = [Phone ''1234567890'']\<rparr>)]
   \<and> distinct (map fst [(''ann'', \<lparr>name = Name ''ann'', phones = []\<rparr>),
                         (''john'', \<lparr>name = Name ''john'', phones = [Phone ''1234567890'']\<rparr>)])
   \<and> find_record (snd (delete [(''ann'', \<lparr>name = Name ''ann'', phones = []\<rparr>),
              (''john'', \<lparr>name = Name ''john'', phones = [Phone ''1234567890'']\<rparr>)] ''ann'')) ''ann''
       = None
   \<and> delete [(''ann'', \<lparr>name = Name ''ann'', phones = []\<rparr>),
              (''john'', \<lparr>name = Name ''john'', phones = [Phone ''1234567890'']\<rparr>)] ''ann''
       = (Inr (), [(''john'', \<lparr>name = Name ''john'', phones = [Phone ''1234567890'']\<rparr>)])"
proof -
  let ?c = "[(''ann'', \<lparr>name = Name ''ann'', phones = []\<rparr>),
             (''john'', \<lparr>name = Name ''john'', phones = [Phone ''1234567890'']\<rparr>)]"
  have h1: "''bob'' \<notin> fst ` set ?c" by simp
  have h2: "''ann'' \<in> fst ` set ?c" by simp
  have h3: "distinct (map fst ?c)" by simp
  from delete_record [of ?c "''bob''"] h1
  have c1: "delete ?c ''bob'' = (Inl (ValueError ''Record not found''), ?c)"
    by blast
  from delete_record [of ?c "''ann''"] h2 h3
  have c2: "find_record (snd (delete ?c ''ann'')) ''ann'' = None"
    by blast
  have c3: "delete ?c ''ann''
       = (Inr (), [(''john'', \<lparr>name = Name ''john'', phones = [Phone ''1234567890'']\<rparr>)])"
    by (simp add: delete_def)
  from h1 h2 h3 c1 c2 c3 show ?thesis by blast
qed

text \<open>
  C8: in every directory reached from the empty one by a sequence of \<^verbatim>\<open>add_record\<close>,
  \<^verbatim>\<open>find\<close> and \<^verbatim>\<open>delete\<close>, every item's key is its record's name, so a record found
  under a name bears that name; and each of the three operations preserves the
  invariant from any directory that satisfies it.
\<close>

theorem key_invariant:
  "key_inv (run_ops ops)
   \<and> (\<forall>k r. find_record (run_ops ops) k = Some r \<longrightarrow> Name_value (name r) = k)
   \<and> (key_inv contacts \<longrightarrow> key_inv (apply_op contacts op))"
proof -
  have "key_inv []" by (simp add: key_inv_def)
  then have "key_inv (run_ops ops)"
    unfolding run_ops_def by (rule key_inv_foldl)
  then show ?thesis
    by (auto simp: find_record_def key_inv_apply_op dest: key_inv_get)
qed

theorem key_invariant_witness:
  "run_ops [AddRecord \<lparr>name = Name ''john'', phones = []\<rparr>,
            AddRecord \<lparr>name = Name ''ann'', phones = []\<rparr>,
            Find ''john'', Delete ''john'']
     = [(''ann'', \<lparr>name = Name ''ann'', phones = []\<rparr>)]
   \<and> key_inv (run_ops [AddRecord \<lparr>name = Name ''john'', phones = []\<rparr>,
            AddRecord \<lparr>name = Name ''ann'', phones = []\<rparr>,
            Find ''john'', Delete ''john''])
   \<and> find_record (run_ops [AddRecord \<lparr>name = Name ''john'', phones = []\<rparr>,
            AddRecord \<lparr>name = Name ''ann'', phones = []\<rparr>,
            Find ''john'', Delete ''john'']) ''ann'' = Some \<lparr>name = Name ''ann'', phones = []\<rparr>
   \<and> key_inv [(''ann'', \<lparr>name = Name ''ann'', phones = []\<rparr>)]
   \<and> key_inv (apply_op [(''ann'', \<lparr>name = Name ''ann'', phones = []\<rparr>)]
                (AddRecord \<lparr>name = Name ''ann'', phones = [Phone ''1234567890'']\<rparr>))"
proof -
  let ?ops = "[AddRecord \<lparr>name = Name ''john'', phones = []\<rparr>,
            AddRecord \<lparr>name = Name ''ann'', phones = []\<rparr>,
            Find ''john'', Delete ''john'']"
  let ?c = "[(''ann'', \<lparr>name = Name ''ann'', phones = []\<rparr>)]"
  let ?op = "AddRecord \<lparr>name = Name ''ann'', phones = [Phone ''1234567890'']\<rparr>"
  have r: "run_ops ?ops = ?c"
    by (simp add: run_ops_def add_record_def delete_def)
  have h: "key_inv ?c"
    by (simp add: key_inv_def)
  have f: "find_record (run_ops ?ops) ''ann'' = Some \<lparr>name = Name ''ann'', phones = []\<rparr>"
    by (simp add: r find_record_def)
  from key_invariant [of ?ops ?c ?op] h
  have "key_inv (run_ops ?ops) \<and> key_inv (apply_op ?c ?op)"
    by blast
  with r h f show ?thesis by blast
qed

section \<open>Rendering\<close>

text \<open>
  C9: a record renders as \<^verbatim>\<open>Contact name: \<close>, its name, \<^verbatim>\<open>, phones: \<close> and its phone
  values in list order joined by \<^verbatim>\<open>; \<close>, which for an empty phone list is just the
  prefix; a directory renders as its records' renderings in iteration order joined by a
  newline, the empty directory as the empty string.
\<close>

theorem Record_str_AddressBook_str_joined:
  "Record_str r = ''Contact name: '' @ Name_value (name r) @ '', phones: ''
                    @ spec_joined ''; '' (map Phone_value (phones r))
   \<and> (phones r = [] \<longrightarrow> Record_str r = ''Contact name: '' @ Name_value (name r) @ '', phones: '')
   \<and> AddressBook_str contacts = spec_joined [CHR 0x0A] (map (Record_str \<circ> snd) contacts)
   \<and> AddressBook_str [] = []"
proof -
  have a: "Record_str r = ''Contact name: '' @ Name_value (name r) @ '', phones: ''
                    @ spec_joined ''; '' (map Phone_value (phones r))"
    by (simp add: Record_str_def join_spec_joined)
  have b: "phones r = [] \<longrightarrow> Record_str r = ''Contact name: '' @ Name_value (name r) @ '', phones: ''"
    by (simp add: Record_str_def)
  have "(\<lambda>(k, record). Record_str record) = Record_str \<circ> snd"
    by auto
  then have c: "AddressBook_str contacts = spec_joined [CHR 0x0A] (map (Record_str \<circ> snd) contacts)"
    unfolding AddressBook_str_def join_spec_joined by (rule arg_cong)
  have d: "AddressBook_str [] = []"
    by (simp add: AddressBook_str_def)
  from a b c d show ?thesis by blast
qed

theorem Record_str_AddressBook_str_joined_witness:
  "phones \<lparr>name = Name ''ann'', phones = []\<rparr> = []
   \<and> Record_str \<lparr>name = Name ''ann'', phones = []\<rparr> = ''Contact name: ann, phones: ''
   \<and> Record_str \<lparr>name = Name ''john'', phones = [Phone ''1234567890'', Phone ''0000000000'']\<rparr>
       = ''Contact name: john, phones: 1234567890; 0000000000''
   \<and> AddressBook_str [(''ann'', \<lparr>name = Name ''ann'', phones = []\<rparr>),
                       (''john'', \<lparr>name = Name ''john'', phones = [Phone ''1234567890'']\<rparr>)]
       = ''Contact name: ann, phones: '' @ [CHR 0x0A] @ ''Contact name: john, phones: 1234567890''"
proof -
  let ?ra = "\<lparr>name = Name ''ann'', phones = []\<rparr>"
  let ?rj = "\<lparr>name = Name ''john'', phones = [Phone ''1234567890'', Phone ''0000000000'']\<rparr>"
  let ?c = "[(''ann'', \<lparr>name = Name ''ann'', phones = []\<rparr>),
             (''john'', \<lparr>name = Name ''john'', phones = [Phone ''1234567890'']\<rparr>)]"
  have h: "phones ?ra = []" by simp
  from Record_str_AddressBook_str_joined [of ?ra ?c] h
  have "Record_str ?ra = ''Contact name: '' @ Name_value (name ?ra) @ '', phones: ''"
    by blast
  then have c1: "Record_str ?ra = ''Contact name: ann, phones: ''"
    by simp
  from Record_str_AddressBook_str_joined [of ?rj ?c]
  have "Record_str ?rj = ''Contact name: '' @ Name_value (name ?rj) @ '', phones: ''
                    @ spec_joined ''; '' (map Phone_value (phones ?rj))"
    by blast
  then have c2: "Record_str ?rj = ''Contact name: john, phones: 1234567890; 0000000000''"
    by (simp add: spec_joined_def)
  from Record_str_AddressBook_str_joined [of ?ra ?c]
  have "AddressBook_str ?c = spec_joined [CHR 0x0A] (map (Record_str \<circ> snd) ?c)"
    by blast
  then have c3: "AddressBook_str ?c
       = ''Contact name: ann, phones: '' @ [CHR 0x0A] @ ''Contact name: john, phones: 1234567890''"
    by (simp add: spec_joined_def Record_str_def)
  from h c1 c2 c3 show ?thesis by blast
qed

section \<open>The parser: basic facts\<close>

lemma isspace_lower_char: "isspace_char (lower_char c) = isspace_char c"
  by (simp add: isspace_char_def lower_char_def Let_def)

lemma lower_Nil_iff: "lower cur = [] \<longleftrightarrow> cur = []"
  by (simp add: lower_def)

lemma split_loop_lower:
  "split_loop (lower cur) (lower s) = map lower (split_loop cur s)"
proof (induction s arbitrary: cur)
  case Nil
  then show ?case by (simp add: lower_def)
next
  case (Cons c s)
  have n: "lower [] = []" by (simp add: lower_def)
  have a: "lower (cur @ [c]) = lower cur @ [lower_char c]" by (simp add: lower_def)
  have "split_loop (lower cur) (lower (c # s))
          = split_loop (lower cur) (lower_char c # lower s)"
    by (simp add: lower_def)
  also have "\<dots> = map lower (split_loop cur (c # s))"
    using Cons.IH [of "cur @ [c]"] Cons.IH [of "[]"]
    by (simp add: isspace_lower_char lower_Nil_iff a n)
  finally show ?case .
qed

lemma split_loop_leading:
  "split_loop [] (dropWhile isspace_char s) = split_loop [] s"
  by (induction s) simp_all

lemma split_loop_trailing_one:
  "isspace_char c \<Longrightarrow> split_loop cur (s @ [c]) = split_loop cur s"
  by (induction s arbitrary: cur) simp_all

lemma split_loop_trailing:
  "list_all isspace_char ws \<Longrightarrow> split_loop cur (s @ ws) = split_loop cur s"
proof (induction ws arbitrary: s)
  case Nil
  then show ?case by simp
next
  case (Cons w ws)
  from Cons.prems Cons.IH [of "s @ [w]"]
  have "split_loop cur (s @ w # ws) = split_loop cur (s @ [w])"
    by simp
  with Cons.prems show ?case
    by (simp add: split_loop_trailing_one)
qed

lemma rstrip_decompose:
  "s = rev (dropWhile P (rev s)) @ rev (takeWhile P (rev s))"
  by (metis rev_append rev_rev_ident takeWhile_dropWhile_id)

lemma split_loop_rstrip:
  "split_loop cur (rev (dropWhile isspace_char (rev s))) = split_loop cur s"
proof -
  have "list_all isspace_char (rev (takeWhile isspace_char (rev s)))"
    by (simp add: list_all_iff) (metis set_takeWhileD)
  from split_loop_trailing [OF this, of cur "rev (dropWhile isspace_char (rev s))"]
  show ?thesis
    using rstrip_decompose [of s isspace_char] by simp
qed

lemma split_strip: "split (strip s) = split s"
  by (simp add: split_def strip_def split_loop_rstrip split_loop_leading)

lemma split_lower: "split (lower s) = map lower (split s)"
  using split_loop_lower [of "[]" s] by (simp add: split_def lower_def)

lemma split_loop_Nil_iff:
  "split_loop cur s = [] \<longleftrightarrow> cur = [] \<and> list_all isspace_char s"
  by (induction s arbitrary: cur) auto

lemma split_Nil_iff: "split s = [] \<longleftrightarrow> list_all isspace_char s"
  by (simp add: split_def split_loop_Nil_iff)

lemma split_lower_strip: "split (lower (strip s)) = map lower (split s)"
  by (simp add: split_lower split_strip)

lemma parse_input_Inl_iff:
  "(\<exists>e. parse_input s = Inl e) \<longleftrightarrow> list_all isspace_char s"
  by (auto simp: parse_input_def split_lower_strip split_Nil_iff [symmetric] split: list.splits)

lemma main_step_Crashed_iff:
  "main_step contacts s = Crashed e \<longleftrightarrow> parse_input s = Inl e"
  by (auto simp: main_step_def split: sum.splits prod.splits)


section \<open>Parsing and dispatch\<close>

text \<open>
  C4, as stated, at a concrete input: in the line \<^verbatim>\<open>add John 1234567890\<close> the
  argument \<^verbatim>\<open>John\<close> reaches the handler as \<^verbatim>\<open>john\<close>, the contact is stored under
  \<^verbatim>\<open>john\<close>, and \<^verbatim>\<open>phone John\<close> answers for \<^verbatim>\<open>john\<close>: \<^verbatim>\<open>lower()\<close> is applied to the
  whole line before it is split.
\<close>

theorem parse_input_lowercases_argument:
  "split ''add John 1234567890'' = [''add'', ''John'', ''1234567890'']
   \<and> parse_input ''add John 1234567890'' = Inr (''add'', [''john'', ''1234567890''])
   \<and> main_loop [] [''add John 1234567890'', ''phone John'']
       = ([''Contact added.'', ''john: 1234567890''],
          Waiting [(''john'', \<lparr>name = Name ''john'', phones = [Phone ''1234567890'']\<rparr>)])"
  by code_simp

text \<open>
  C4, amended: for every input line the parser lowercases the command word and every
  argument alike: its result is the line's whitespace-separated words, each lowercased,
  the first as the command and the rest as the arguments (and an error when the line has
  no word). Names and phones are therefore stored and compared in lowercased form.
\<close>

theorem parse_input_lowercases_line:
  "parse_input user_input =
     (case split user_input of
        [] \<Rightarrow> Inl (ValueError ''not enough values to unpack (expected at least 1, got 0)'')
      | cmd # args \<Rightarrow> Inr (lower cmd, map lower args))"
proof (cases "split user_input")
  case Nil
  then have "split (lower (strip user_input)) = []"
    by (simp add: split_lower_strip)
  with Nil show ?thesis
    by (simp add: parse_input_def)
next
  case (Cons w ws)
  then have "split (lower (strip user_input)) = lower w # map lower ws"
    by (simp add: split_lower_strip)
  with Cons show ?thesis
    by (simp add: parse_input_def)
qed

text \<open>
  C5 at the failing inputs: on the empty line and on a line of blanks \<^verbatim>\<open>parse_input\<close>
  raises \<^verbatim>\<open>ValueError\<close> when unpacking the empty word list; the call stands outside
  \<^verbatim>\<open>input_error\<close>, so the exception leaves \<^verbatim>\<open>main\<close>. A round of the loop ends this way
  exactly when the line consists of whitespace only; on every other line it prints a
  message or terminates on \<^verbatim>\<open>close\<close>/\<^verbatim>\<open>exit\<close>.
\<close>

theorem main_step_blank_line_crashes:
  "main_step contacts [] =
     Crashed (ValueError ''not enough values to unpack (expected at least 1, got 0)'')
   \<and> main_step contacts ''   '' =
     Crashed (ValueError ''not enough values to unpack (expected at least 1, got 0)'')
   \<and> ((\<exists>e. main_step contacts user_input = Crashed e) \<longleftrightarrow> list_all isspace_char user_input)"
proof -
  have a: "parse_input [] =
      Inl (ValueError ''not enough values to unpack (expected at least 1, got 0)'')"
    unfolding parse_input_def split_lower_strip by (simp add: split_def)
  have b: "parse_input ''   '' =
      Inl (ValueError ''not enough values to unpack (expected at least 1, got 0)'')"
    unfolding parse_input_def split_lower_strip by (simp add: split_def isspace_char_def)
  have c: "(\<exists>e. main_step contacts user_input = Crashed e) \<longleftrightarrow> list_all isspace_char user_input"
    by (simp add: main_step_Crashed_iff parse_input_Inl_iff)
  from a b c show ?thesis
    by (simp add: main_step_Crashed_iff)
qed

text \<open>
  C10: after \<^verbatim>\<open>add john 1234567890\<close> and \<^verbatim>\<open>change john 12345\<close> the directory holds
  \<^verbatim>\<open>john\<close> with an empty phone list, and a further \<^verbatim>\<open>change\<close> for \<^verbatim>\<open>john\<close> prints
  \<^verbatim>\<open>Error: Invalid command format.\<close> and changes nothing. In general, a \<^verbatim>\<open>change\<close>
  for a contact with a single phone and a new phone that fails validation leaves the
  contact with no phone, and a \<^verbatim>\<open>change\<close> for a contact with no phone raises
  \<^verbatim>\<open>IndexError\<close> when reading the first phone, which the wrapper reports as
  \<^verbatim>\<open>Error: Invalid command format.\<close>, whatever the new phone.
\<close>

theorem change_contact_empty_phone_list:
  "main_loop [] [''add john 1234567890'', ''change john 12345'']
     = ([''Contact added.'', ''Error: Phone number must be 10 digits''],
        Waiting [(''john'', \<lparr>name = Name ''john'', phones = []\<rparr>)])
   \<and> main_loop [] [''add john 1234567890'', ''change john 12345'', ''change john 1112223333'']
     = ([''Contact added.'', ''Error: Phone number must be 10 digits'',
         ''Error: Invalid command format.''],
        Waiting [(''john'', \<lparr>name = Name ''john'', phones = []\<rparr>)])
   \<and> (find_record contacts nm = Some record \<and> phones record = [p] \<and> \<not> validate_phone new_phone
        \<longrightarrow> change_contact [nm, new_phone] contacts
            = (''Error: Phone number must be 10 digits'',
               mutate_item contacts nm (record\<lparr>phones := []\<rparr>)))
   \<and> (find_record contacts nm = Some record \<and> phones record = []
        \<longrightarrow> change_contact_func [nm, new_phone] contacts
              = (Inl (IndexError ''list index out of range''), contacts)
            \<and> change_contact [nm, new_phone] contacts
              = (''Error: Invalid command format.'', contacts))"
proof -
  have a: "main_loop [] [''add john 1234567890'', ''change john 12345'']
     = ([''Contact added.'', ''Error: Phone number must be 10 digits''],
        Waiting [(''john'', \<lparr>name = Name ''john'', phones = []\<rparr>)])"
    by code_simp
  have b: "main_loop [] [''add john 1234567890'', ''change john 12345'', ''change john 1112223333'']
     = ([''Contact added.'', ''Error: Phone number must be 10 digits'',
         ''Error: Invalid command format.''],
        Waiting [(''john'', \<lparr>name = Name ''john'', phones = []\<rparr>)])"
    by code_simp
  have c: "find_record contacts nm = Some record \<and> phones record = [p] \<and> \<not> validate_phone new_phone
        \<longrightarrow> change_contact [nm, new_phone] contacts
            = (''Error: Phone number must be 10 digits'',
               mutate_item contacts nm (record\<lparr>phones := []\<rparr>))"
  proof
    assume h: "find_record contacts nm = Some record \<and> phones record = [p] \<and> \<not> validate_phone new_phone"
    then have f: "find_phone record (Phone_value p) \<noteq> None"
      by (simp add: find_phone_def)
    have "Phone (Phone_value p) = p" by simp
    with h have "remove1 (Phone (Phone_value p)) (phones record) = []" by simp
    with edit_phone_fails_after_remove [OF f, of new_phone] h
    have "edit_phone record (Phone_value p) new_phone
            = (Inl (ValueError ''Phone number must be 10 digits''), record\<lparr>phones := []\<rparr>)"
      by simp
    with h show "change_contact [nm, new_phone] contacts
            = (''Error: Phone number must be 10 digits'',
               mutate_item contacts nm (record\<lparr>phones := []\<rparr>))"
      by (simp add: change_contact_def input_error_def)
  qed
  have d: "find_record contacts nm = Some record \<and> phones record = []
        \<longrightarrow> change_contact_func [nm, new_phone] contacts
              = (Inl (IndexError ''list index out of range''), contacts)
            \<and> change_contact [nm, new_phone] contacts
              = (''Error: Invalid command format.'', contacts)"
    by (simp add: change_contact_def input_error_def)
  from a b c d show ?thesis by blast
qed

theorem change_contact_empty_phone_list_witness:
  "find_record [(''john'', \<lparr>name = Name ''john'', phones = [Phone ''1234567890'']\<rparr>)] ''john''
      = Some \<lparr>name = Name ''john'', phones = [Phone ''1234567890'']\<rparr>
   \<and> \<not> validate_phone ''12345''
   \<and> change_contact [''john'', ''12345'']
        [(''john'', \<lparr>name = Name ''john'', phones = [Phone ''1234567890'']\<rparr>)]
      = (''Error: Phone number must be 10 digits'',
         [(''john'', \<lparr>name = Name ''john'', phones = []\<rparr>)])
   \<and> find_record [(''john'', \<lparr>name = Name ''john'', phones = []\<rparr>)] ''john''
      = Some \<lparr>name = Name ''john'', phones = []\<rparr>
   \<and> change_contact [''john'', ''1112223333''] [(''john'', \<lparr>name = Name ''john'', phones = []\<rparr>)]
      = (''Error: Invalid command format.'', [(''john'', \<lparr>name = Name ''john'', phones = []\<rparr>)])"
proof -
  let ?r1 = "\<lparr>name = Name ''john'', phones = [Phone ''1234567890'']\<rparr>"
  let ?r0 = "\<lparr>name = Name ''john'', phones = []\<rparr>"
  have h1: "find_record [(''john'', ?r1)] ''john'' = Some ?r1"
    by (simp add: find_record_def)
  have h2: "\<not> validate_phone ''12345''"
    by (simp add: validate_phone_def)
  have h3: "phones ?r1 = [Phone ''1234567890'']" by simp
  have h4: "find_record [(''john'', ?r0)] ''john'' = Some ?r0"
    by (simp add: find_record_def)
  have h5: "phones ?r0 = []" by simp
  from change_contact_empty_phone_list
         [of "[(''john'', ?r1)]" "''john''" ?r1 "Phone ''1234567890''" "''12345''"] h1 h2 h3
  have "change_contact [''john'', ''12345''] [(''john'', ?r1)]
      = (''Error: Phone number must be 10 digits'',
         mutate_item [(''john'', ?r1)] ''john'' (?r1\<lparr>phones := []\<rparr>))"
    by blast
  then have c1: "change_contact [''john'', ''12345''] [(''john'', ?r1)]
      = (''Error: Phone number must be 10 digits'', [(''john'', ?r0)])"
    by simp
  from change_contact_empty_phone_list
         [of "[(''john'', ?r0)]" "''john''" ?r0 "Phone ''1234567890''" "''1112223333''"] h4 h5
  have c2: "change_contact [''john'', ''1112223333''] [(''john'', ?r0)]
      = (''Error: Invalid command format.'', [(''john'', ?r0)])"
    by blast
  from h1 h2 h4 c1 c2 show ?thesis by blast
qed

end
